theory Spec2Isabelle
  imports Main
begin

section \<open>Python values, exceptions and effects\<close>

text \<open>
  The backend \<open>ParamRoleBackend\<close> (\<open>flexi_auth/backends.py\<close>) is a single decision
  function, \<open>has_perm\<close>, that hands the real work to a method found by name on the object
  the permission is asked for. What a permission check returns is any Python value; the
  backend's own answers are the literals \<open>False\<close> and \<open>True\<close>.
\<close>

datatype pyval = PyNone | PyBool bool | PyInt int | PyStr string

text \<open>The context of a request is a dictionary with string keys.\<close>

type_synonym pydict = "string \<rightharpoonup> pyval"

text \<open>
  The exceptions that can leave \<open>has_perm\<close>: \<open>getattr\<close> raises \<open>AttributeError\<close>
  for a name that is not found, calling a method through the class without an instance
  raises \<open>TypeError\<close>, and a permission check may raise whatever it likes
  (\<open>KeyError\<close> for a missing context key, for example).
\<close>

datatype exn = AttributeError string | TypeError | KeyError string

text \<open>
  A permission check has the signature \<open>(user, context)\<close>. It may read and change the
  world around it (the database, module globals), which is the state \<open>'s\<close> passed through,
  and it returns a value or raises.
\<close>

type_synonym ('u, 's) check = "'u \<Rightarrow> pydict \<Rightarrow> 's \<Rightarrow> (exn + pyval) \<times> 's"

section \<open>Strings\<close>

text \<open>
  What \<open>perm.lower()\<close> does depends on the string type of \<open>perm\<close>. On a byte string only
  the letters \<open>A\<close> to \<open>Z\<close> move, to \<open>a\<close> to \<open>z\<close>: that is \<open>lower\<close>.
\<close>

definition lower_char :: "char \<Rightarrow> char" where
  "lower_char c =
     (let n = (of_char c :: nat) in if 65 \<le> n \<and> n \<le> 90 then char_of (n + 32) else c)"

definition lower :: "string \<Rightarrow> string" where
  "lower s = map lower_char s"

text \<open>
  On a unicode string every cased letter moves. For a string whose code points lie below
  256, each \<open>char\<close> being one code point, these are \<open>A\<close> to \<open>Z\<close> and the capital letters
  from U+00C0 to U+00DE (U+00D7, the multiplication sign, is no letter): that is
  \<open>lower_unicode\<close>.
\<close>

definition lower_unicode_char :: "char \<Rightarrow> char" where
  "lower_unicode_char c =
     (let n = (of_char c :: nat)
      in if (65 \<le> n \<and> n \<le> 90) \<or> (192 \<le> n \<and> n \<le> 222 \<and> n \<noteq> 215)
         then char_of (n + 32) else c)"

definition lower_unicode :: "string \<Rightarrow> string" where
  "lower_unicode s = map lower_unicode_char s"

section \<open>Users\<close>

text \<open>
  The three things \<open>has_perm\<close> reads from \<open>user_obj\<close>. The record is extensible: whatever
  else the user object carries (its primary key, its name) is the extension, and the
  permission check receives the whole object.
\<close>

record user =
  is_superuser :: bool
  is_anonymous :: bool
  is_active :: bool

section \<open>Model classes, instances and attribute lookup\<close>

text \<open>
  What a model class defines under a name, following the class docstring: a class method
  (\<open>@classmethod def can_create(cls, user, context)\<close>) for a table-level permission, or a
  plain function (\<open>def can_view(self, user, context)\<close>) for a row-level one. A class
  namespace holds one definition per name.
\<close>

datatype ('u, 'i, 's) class_attr =
    ClassMethod "('u, 's) check"
  | Function "'i \<Rightarrow> ('u, 's) check"

type_synonym ('u, 'i, 's) model_class = "string \<rightharpoonup> ('u, 'i, 's) class_attr"

text \<open>
  \<open>obj.model_or_instance\<close> is a model class or one of its instances. An instance has its
  class, its own data (\<open>self\<close>) and the callables stored in its own \<open>__dict__\<close>.
\<close>

datatype ('u, 'i, 's) pyobject =
    Model "('u, 'i, 's) model_class"
  | Instance "('u, 'i, 's) model_class" 'i "string \<rightharpoonup> ('u, 's) check"

text \<open>What \<open>getattr\<close> returns: a bound method, or the function itself when it is reached
  through the class.\<close>

datatype ('u, 'i, 's) callable =
    BoundMethod "('u, 's) check"
  | UnboundMethod "'i \<Rightarrow> ('u, 's) check"

text \<open>
  Python's attribute lookup. On a class, the name is looked up in the class namespace: a
  class method comes back bound to the class, a function comes back unbound. On an
  instance, the instance's own attributes come first, then the class namespace: a class
  method comes back bound to the class, a function bound to the instance. A name found
  nowhere raises \<open>AttributeError\<close>.
\<close>

fun getattr :: "('u, 'i, 's) pyobject \<Rightarrow> string \<Rightarrow> exn + ('u, 'i, 's) callable" where
  "getattr (Model cls) name =
     (case cls name of
        None \<Rightarrow> Inl (AttributeError name)
      | Some (ClassMethod f) \<Rightarrow> Inr (BoundMethod f)
      | Some (Function g) \<Rightarrow> Inr (UnboundMethod g))"
| "getattr (Instance cls self attrs) name =
     (case attrs name of
        Some f \<Rightarrow> Inr (BoundMethod f)
      | None \<Rightarrow>
          (case cls name of
             None \<Rightarrow> Inl (AttributeError name)
           | Some (ClassMethod f) \<Rightarrow> Inr (BoundMethod f)
           | Some (Function g) \<Rightarrow> Inr (BoundMethod (g self))))"

text \<open>
  The call \<open>perm_check(user_obj, obj.context)\<close>. A function reached through the class
  still expects \<open>self\<close>, so the call with these two arguments raises \<open>TypeError\<close>.
\<close>

fun call :: "('u, 'i, 's) callable \<Rightarrow> ('u, 's) check" where
  "call (BoundMethod f) user_obj ctx s = f user_obj ctx s"
| "call (UnboundMethod g) user_obj ctx s = (Inl TypeError, s)"

text \<open>The argument \<open>obj\<close> of \<open>has_perm\<close>: an object together with a context.\<close>

record ('u, 'i, 's) object_with_context =
  model_or_instance :: "('u, 'i, 's) pyobject"
  obj_context :: pydict

section \<open>The backend\<close>

text \<open>
  \<open>ParamRoleBackend.has_perm(self, user_obj, perm, obj=None)\<close>, lines 95 to 110. The
  backend object itself has no fields that \<open>has_perm\<close> reads or writes.
\<close>

definition has_perm ::
  "'a user_scheme \<Rightarrow> string \<Rightarrow> ('a user_scheme, 'i, 's) object_with_context option \<Rightarrow> 's
     \<Rightarrow> (exn + pyval) \<times> 's" where
  "has_perm user_obj perm obj s =
     (case obj of
        None \<Rightarrow> (Inr (PyBool False), s)
      | Some ob \<Rightarrow>
          if is_superuser user_obj then (Inr (PyBool True), s)
          else if is_anonymous user_obj \<or> \<not> is_active user_obj then (Inr (PyBool False), s)
          else
            (case getattr (model_or_instance ob) (''can_'' @ lower perm) of
               Inl e \<Rightarrow> (Inl e, s)
             | Inr perm_check \<Rightarrow> call perm_check user_obj (obj_context ob) s))"

text \<open>
  Lines 109 and 110 on their own, the part of \<open>has_perm\<close> that retrieves the function
  implementing the permission check and calls it.
\<close>

definition Resolve ::
  "'a user_scheme \<Rightarrow> ('a user_scheme, 'i, 's) object_with_context \<Rightarrow> string \<Rightarrow> 's
     \<Rightarrow> (exn + pyval) \<times> 's" where
  "Resolve prin target permissionName s =
     (case getattr (model_or_instance target) (''can_'' @ lower permissionName) of
        Inl e \<Rightarrow> (Inl e, s)
      | Inr located \<Rightarrow> call located prin (obj_context target) s)"

text \<open>
  \<open>has_perm\<close> with the lower-casing of the string type of \<open>perm\<close> as a parameter \<open>lc\<close>:
  the same lines, with \<open>lc perm\<close> for \<open>perm.lower()\<close>. \<open>has_perm\<close> is its instance for byte
  strings.
\<close>

definition has_perm_with ::
  "(string \<Rightarrow> string) \<Rightarrow> 'a user_scheme \<Rightarrow> string
     \<Rightarrow> ('a user_scheme, 'i, 's) object_with_context option \<Rightarrow> 's
     \<Rightarrow> (exn + pyval) \<times> 's" where
  "has_perm_with lc user_obj perm obj s =
     (case obj of
        None \<Rightarrow> (Inr (PyBool False), s)
      | Some ob \<Rightarrow>
          if is_superuser user_obj then (Inr (PyBool True), s)
          else if is_anonymous user_obj \<or> \<not> is_active user_obj then (Inr (PyBool False), s)
          else
            (case getattr (model_or_instance ob) (''can_'' @ lc perm) of
               Inl e \<Rightarrow> (Inl e, s)
             | Inr perm_check \<Rightarrow> call perm_check user_obj (obj_context ob) s))"

section \<open>The specification's vocabulary\<close>

text \<open>
  The specification speaks of a principal with the flags \<open>isPrivileged\<close>,
  \<open>isAuthenticated\<close> and \<open>isActive\<close>, of a Policy Gate \<open>Evaluate\<close> and of a Capability
  Resolver. These definitions follow the specification's words (its sections 3, 4.1 and
  4.2), not the code; the theorems compare them with \<open>has_perm\<close>.
\<close>

definition isPrivileged :: "'a user_scheme \<Rightarrow> bool" where
  "isPrivileged prin = is_superuser prin"

definition isAuthenticated :: "'a user_scheme \<Rightarrow> bool" where
  "isAuthenticated prin = (\<not> is_anonymous prin)"

definition isActive :: "'a user_scheme \<Rightarrow> bool" where
  "isActive prin = is_active prin"

text \<open>
  Step 3 of the Capability Resolver (section 4.2) branches on the target variant. For a
  class target it looks the identifier up as a class-scoped check of the resource kind.
  For an instance target it looks the identifier up as an instance-scoped check bound to
  that instance: a callable of the instance's own, or an instance method of its kind
  bound to the instance.
\<close>

fun scoped_check :: "('u, 'i, 's) pyobject \<Rightarrow> string \<Rightarrow> ('u, 's) check option" where
  "scoped_check (Model cls) name =
     (case cls name of Some (ClassMethod f) \<Rightarrow> Some f | _ \<Rightarrow> None)"
| "scoped_check (Instance cls self attrs) name =
     (case attrs name of
        Some f \<Rightarrow> Some f
      | None \<Rightarrow> (case cls name of Some (Function g) \<Rightarrow> Some (g self) | _ \<Rightarrow> None))"



text \<open>
  "The resource kind defines a check of this name at the required scope", as the
  specification has it: class-scoped for a class target, instance-scoped (an instance
  method, or a callable of the instance's own) for an instance target.
\<close>

fun defines_at_scope :: "('u, 'i, 's) pyobject \<Rightarrow> string \<Rightarrow> bool" where
  "defines_at_scope (Model cls) name =
     (case cls name of Some (ClassMethod f) \<Rightarrow> True | _ \<Rightarrow> False)"
| "defines_at_scope (Instance cls self attrs) name =
     (case attrs name of
        Some f \<Rightarrow> True
      | None \<Rightarrow> (case cls name of Some (Function g) \<Rightarrow> True | _ \<Rightarrow> False))"

text \<open>
  "A check of this name is defined for the target at some scope": in the class namespace,
  or among the instance's own attributes.
\<close>

fun defines_somewhere :: "('u, 'i, 's) pyobject \<Rightarrow> string \<Rightarrow> bool" where
  "defines_somewhere (Model cls) name = (cls name \<noteq> None)"
| "defines_somewhere (Instance cls self attrs) name = (attrs name \<noteq> None \<or> cls name \<noteq> None)"

text \<open>
  A target whose checks are free of side effects: every method that lookup can bind on
  it leaves the world as it found it.
\<close>

definition side_effect_free :: "('u, 'i, 's) pyobject \<Rightarrow> bool" where
  "side_effect_free tgt =
     (\<forall>name f user_obj ctx s. getattr tgt name = Inr (BoundMethod f) \<longrightarrow> snd (f user_obj ctx s) = s)"

section \<open>Example data\<close>

text \<open>
  A user object with a primary key, and the world as a counter of the permission checks
  that have run.
\<close>

record django_user = user +
  pk :: int

definition alice :: django_user where
  "alice = \<lparr>is_superuser = False, is_anonymous = False, is_active = True, pk = 1\<rparr>"

definition bob :: django_user where
  "bob = \<lparr>is_superuser = False, is_anonymous = False, is_active = True, pk = 2\<rparr>"

text \<open>A superuser account that has been deactivated.\<close>

definition root :: django_user where
  "root = \<lparr>is_superuser = True, is_anonymous = False, is_active = False, pk = 0\<rparr>"

text \<open>An ordinary account that has been deactivated.\<close>

definition dormant :: django_user where
  "dormant = \<lparr>is_superuser = False, is_anonymous = False, is_active = False, pk = 3\<rparr>"

text \<open>A visitor who has not logged in.\<close>

definition guest :: django_user where
  "guest = \<lparr>is_superuser = False, is_anonymous = True, is_active = False, pk = - 1\<rparr>"

text \<open>
  The class \<open>Foo\<close> of the backend's docstring: a table-level \<open>can_create\<close> (a class
  method), row-level \<open>can_view\<close> and \<open>can_delete\<close>, and a row-level \<open>can_edit\<close> that
  grants when \<open>context["owner"]\<close> is the user's key. An instance's data is the key of the
  user the row belongs to.
\<close>

definition Foo :: "(django_user, int, nat) model_class" where
  "Foo =
     [''can_create'' \<mapsto> ClassMethod (\<lambda>u ctx s. (Inr (PyBool (ctx ''parent'' = Some (PyInt (pk u)))), s)),
      ''can_view'' \<mapsto> Function (\<lambda>self u ctx s. (Inr (PyBool True), s)),
      ''can_delete'' \<mapsto> Function (\<lambda>self u ctx s. (Inr (PyBool (self = pk u)), s)),
      ''can_edit'' \<mapsto> Function (\<lambda>self u ctx s.
         (case ctx ''owner'' of
            None \<Rightarrow> (Inl (KeyError ''owner''), s)
          | Some v \<Rightarrow> (Inr (PyBool (v = PyInt (pk u))), s)))]"

text \<open>A row of \<open>Foo\<close> that belongs to user 1, and one that carries a \<open>can_create\<close> of its own.\<close>

definition foo_row :: "(django_user, int, nat) pyobject" where
  "foo_row = Instance Foo 1 Map.empty"

definition foo_row_own :: "(django_user, int, nat) pyobject" where
  "foo_row_own = Instance Foo 1 [''can_create'' \<mapsto> (\<lambda>u ctx s. (Inr (PyBool False), s))]"

text \<open>A class on which every name is a class method that counts its call and raises.\<close>

definition Tripwire :: "(django_user, int, nat) model_class" where
  "Tripwire = (\<lambda>name. Some (ClassMethod (\<lambda>u ctx s. (Inl (KeyError name), Suc s))))"

text \<open>
  A class whose only check is the class method \<open>can_\<close> followed by e-acute (U+00E9) and
  \<open>dit\<close>: it grants to the user with key 1.
\<close>

definition Accented :: "(django_user, int, nat) model_class" where
  "Accented =
     [''can_'' @ [CHR 0xE9] @ ''dit'' \<mapsto> ClassMethod (\<lambda>u ctx s. (Inr (PyBool (pk u = 1)), s))]"

text \<open>A class that defines no check at all.\<close>

definition Bare :: "(django_user, int, nat) model_class" where
  "Bare = Map.empty"

definition on :: "('u, 'i, 's) pyobject \<Rightarrow> pydict \<Rightarrow> ('u, 'i, 's) object_with_context" where
  "on target ctx = \<lparr>model_or_instance = target, obj_context = ctx\<rparr>"

section \<open>Strings: lower-casing\<close>

lemma lower_char_idem: "lower_char (lower_char c) = lower_char c"
  by (simp add: lower_char_def Let_def)

lemma lower_idem: "lower (lower s) = lower s"
  by (simp add: lower_def lower_char_idem)

lemma lower_literals:
  "lower ''View'' = ''view''" "lower ''VIEW'' = ''view''" "lower ''view'' = ''view''"
  "lower ''edit'' = ''edit''" "lower ''EDIT'' = ''edit''" "lower ''create'' = ''create''"
  "lower ''Create'' = ''create''" "lower ''archive'' = ''archive''" "lower ''delete'' = ''delete''"
  "lower ''Delete'' = ''delete''" "lower ''DELETE'' = ''delete''"
  by code_simp+

lemma lower_unicode_literals:
  "lower_unicode [CHR 0xC9, CHR ''D'', CHR ''I'', CHR ''T'']
     = [CHR 0xE9, CHR ''d'', CHR ''i'', CHR ''t'']"
  "lower_unicode [CHR 0xE9, CHR ''d'', CHR ''i'', CHR ''t'']
     = [CHR 0xE9, CHR ''d'', CHR ''i'', CHR ''t'']"
  by code_simp+

text \<open>\<open>has_perm\<close> is \<open>has_perm_with\<close> at the lower-casing of byte strings.\<close>

lemma has_perm_with_lower: "has_perm_with lower = has_perm"
  by (intro ext) (simp add: has_perm_with_def has_perm_def)

text \<open>
  A check of the name is defined at the scope the target variant requires exactly when
  step 3 of the Capability Resolver locates one.
\<close>

lemma defines_at_scope_iff: "defines_at_scope tgt name \<longleftrightarrow> scoped_check tgt name \<noteq> None"
  by (cases tgt) (auto split: option.splits class_attr.splits)


section \<open>The order of the decisions\<close>



text \<open>
  C2. A superuser is granted every permission on every target, whatever the context,
  and no check runs (the world is unchanged): also on a target that has no check of the
  name, and on one whose checks would all raise.
\<close>

theorem superuser_granted:
  "is_superuser user_obj \<Longrightarrow> has_perm user_obj perm (Some ob) s = (Inr (PyBool True), s)"
  by (simp add: has_perm_def)

theorem superuser_granted_witness:
  "is_superuser root
   \<and> has_perm root ''archive'' (Some (on (Model Bare) Map.empty)) (0::nat) = (Inr (PyBool True), 0)
   \<and> getattr (Model Bare) (''can_'' @ lower ''archive'') = Inl (AttributeError ''can_archive'')
   \<and> has_perm root ''view'' (Some (on (Model Tripwire) Map.empty)) (0::nat) = (Inr (PyBool True), 0)"
  using superuser_granted [of root "''archive''" "on (Model Bare) Map.empty" "0::nat"]
    superuser_granted [of root "''view''" "on (Model Tripwire) Map.empty" "0::nat"]
  by (simp add: root_def Bare_def lower_literals)

text \<open>
  C3. As stated for every unauthenticated principal and every authenticated, inactive
  one, the denial fails: a deactivated superuser is authenticated and inactive, and is
  granted the permission, because the superuser test comes first.
\<close>

theorem denial_counterexample:
  "isAuthenticated root \<and> \<not> isActive root
   \<and> has_perm root ''view'' (Some (on foo_row Map.empty)) (0::nat) = (Inr (PyBool True), 0)"
  by (simp add: has_perm_def root_def isAuthenticated_def isActive_def)

text \<open>
  C3, amended. A principal that is not privileged and is unauthenticated, or
  authenticated and not active, is denied every permission on every target (present or
  not), and no check runs.
\<close>

theorem unprivileged_denied:
  assumes "\<not> isPrivileged user_obj"
    and "\<not> isAuthenticated user_obj \<or> (isAuthenticated user_obj \<and> \<not> isActive user_obj)"
  shows "has_perm user_obj perm obj s = (Inr (PyBool False), s)"
  using assms
  by (auto simp add: has_perm_def isPrivileged_def isAuthenticated_def isActive_def
      split: option.splits)

theorem unprivileged_denied_witness:
  "\<not> isPrivileged guest \<and> \<not> isAuthenticated guest
   \<and> has_perm guest ''view'' (Some (on foo_row Map.empty)) (0::nat) = (Inr (PyBool False), 0)
   \<and> has_perm guest ''view'' (Some (on (Model Tripwire) Map.empty)) (3::nat) = (Inr (PyBool False), 3)
   \<and> \<not> isPrivileged dormant \<and> isAuthenticated dormant \<and> \<not> isActive dormant
   \<and> has_perm dormant ''view'' (Some (on foo_row Map.empty)) (0::nat) = (Inr (PyBool False), 0)"
proof -
  have a: "\<not> isPrivileged guest" by (simp add: isPrivileged_def guest_def)
  have b: "\<not> isAuthenticated guest \<or> (isAuthenticated guest \<and> \<not> isActive guest)"
    by (simp add: isAuthenticated_def guest_def)
  have c: "\<not> isPrivileged dormant" by (simp add: isPrivileged_def dormant_def)
  have d: "\<not> isAuthenticated dormant \<or> (isAuthenticated dormant \<and> \<not> isActive dormant)"
    by (simp add: isAuthenticated_def isActive_def dormant_def)
  show ?thesis
    using a b c d
      unprivileged_denied [OF a b, of "''view''" "Some (on foo_row Map.empty)" "0::nat"]
      unprivileged_denied [OF a b, of "''view''" "Some (on (Model Tripwire) Map.empty)" "3::nat"]
      unprivileged_denied [OF c d, of "''view''" "Some (on foo_row Map.empty)" "0::nat"]
    by (simp add: isAuthenticated_def isActive_def guest_def dormant_def)
qed

text \<open>
  C9. For a principal that is unauthenticated or inactive and a present target, the
  verdict is exactly the superuser flag: true for a superuser, whose bypass outranks the
  denial, and false for everyone else.
\<close>

theorem privilege_outranks_denial:
  assumes "is_anonymous user_obj \<or> \<not> is_active user_obj"
  shows "has_perm user_obj perm (Some ob) s = (Inr (PyBool (is_superuser user_obj)), s)"
  using assms by (auto simp add: has_perm_def)

theorem privilege_outranks_denial_witness:
  "is_superuser root \<and> \<not> is_active root
   \<and> has_perm root ''delete'' (Some (on foo_row Map.empty)) (0::nat) = (Inr (PyBool True), 0)
   \<and> \<not> is_superuser guest \<and> is_anonymous guest
   \<and> has_perm guest ''delete'' (Some (on foo_row Map.empty)) (0::nat) = (Inr (PyBool False), 0)"
proof -
  have a: "is_anonymous root \<or> \<not> is_active root" by (simp add: root_def)
  have b: "is_anonymous guest \<or> \<not> is_active guest" by (simp add: guest_def)
  show ?thesis
    using privilege_outranks_denial [OF a, of "''delete''" "on foo_row Map.empty" "0::nat"]
      privilege_outranks_denial [OF b, of "''delete''" "on foo_row Map.empty" "0::nat"]
    by (simp add: root_def guest_def)
qed

text \<open>
  C7. A request with no target is denied, for every user and permission name, and the
  world is left as it was: no permission check has run, whatever the checks would do.
\<close>

theorem has_perm_no_target:
  "has_perm user_obj perm None s = (Inr (PyBool False), s)"
  by (simp add: has_perm_def)

theorem has_perm_no_target_witness:
  "has_perm root ''view'' None (0::nat) = (Inr (PyBool False), 0)
   \<and> has_perm alice ''EDIT'' None (5::nat) = (Inr (PyBool False), 5)"
  using has_perm_no_target [of root "''view''" "0::nat"]
    has_perm_no_target [of alice "''EDIT''" "5::nat"]
  by simp

section \<open>Locating and invoking the check\<close>

text \<open>
  C5. The permission name counts only through its lower-casing, whatever the
  lower-casing \<open>lc\<close> of the string type is (that of byte strings and that of unicode
  strings alike). Two names with the same lower-casing give the same outcome for every
  user, target and world. What either name selects, for a user that is not a superuser,
  is authenticated and is active, is the attribute named \<open>can_\<close> followed by the
  lower-cased name: the outcome is the lookup of that name followed by the call, so on a
  class target the outcome of the class method stored under that name, and on an instance
  the outcome of the instance method stored under it, bound to the instance.
\<close>

theorem perm_name_case_insensitive:
  assumes "lc p = lc q"
  shows "has_perm_with lc user_obj p obj s = has_perm_with lc user_obj q obj s
    \<and> (\<not> is_superuser user_obj \<and> \<not> is_anonymous user_obj \<and> is_active user_obj
        \<longrightarrow> has_perm_with lc user_obj p (Some ob) s
            = (case getattr (model_or_instance ob) (''can_'' @ lc q) of
                 Inl e \<Rightarrow> (Inl e, s)
               | Inr perm_check \<Rightarrow> call perm_check user_obj (obj_context ob) s))
    \<and> (\<not> is_superuser user_obj \<and> \<not> is_anonymous user_obj \<and> is_active user_obj
        \<and> cls (''can_'' @ lc q) = Some (ClassMethod f)
        \<longrightarrow> has_perm_with lc user_obj p (Some (on (Model cls) ctx)) s = f user_obj ctx s)
    \<and> (\<not> is_superuser user_obj \<and> \<not> is_anonymous user_obj \<and> is_active user_obj
        \<and> attrs (''can_'' @ lc q) = None \<and> cls (''can_'' @ lc q) = Some (Function g)
        \<longrightarrow> has_perm_with lc user_obj p (Some (on (Instance cls self attrs) ctx)) s
            = g self user_obj ctx s)"
  unfolding has_perm_with_def assms by (simp add: on_def)

text \<open>
  \<open>View\<close>, \<open>VIEW\<close> and \<open>view\<close> all reach \<open>can_view\<close>; \<open>DELETE\<close> and \<open>Delete\<close> reach
  \<open>can_delete\<close>, which grants to the owner of the row only; with the lower-casing of
  unicode strings, the name with a capital E-acute (U+00C9) reaches the check named with
  the small one.
\<close>

theorem perm_name_case_insensitive_witness:
  "lower ''View'' = lower ''view'' \<and> lower ''VIEW'' = lower ''view''
   \<and> ''can_'' @ lower ''VIEW'' = ''can_view''
   \<and> has_perm alice ''View'' (Some (on foo_row Map.empty)) (0::nat) = (Inr (PyBool True), 0)
   \<and> has_perm alice ''VIEW'' (Some (on foo_row Map.empty)) (0::nat) = (Inr (PyBool True), 0)
   \<and> has_perm alice ''view'' (Some (on foo_row Map.empty)) (0::nat) = (Inr (PyBool True), 0)
   \<and> has_perm bob ''DELETE'' (Some (on foo_row Map.empty)) (0::nat) = (Inr (PyBool False), 0)
   \<and> has_perm bob ''Delete'' (Some (on foo_row Map.empty)) (0::nat) = (Inr (PyBool False), 0)
   \<and> has_perm alice ''DELETE'' (Some (on foo_row Map.empty)) (0::nat) = (Inr (PyBool True), 0)
   \<and> lower_unicode ([CHR 0xC9] @ ''DIT'') = lower_unicode ([CHR 0xE9] @ ''dit'')
   \<and> has_perm_with lower_unicode alice ([CHR 0xC9] @ ''DIT'')
         (Some (on (Model Accented) Map.empty)) (0::nat) = (Inr (PyBool True), 0)
   \<and> has_perm_with lower_unicode bob ([CHR 0xC9] @ ''DIT'')
         (Some (on (Model Accented) Map.empty)) (0::nat) = (Inr (PyBool False), 0)"
proof -
  let ?can_view = "\<lambda>(self::int) (u::django_user) (ctx::pydict) (s::nat).
    (Inr (PyBool True) :: exn + pyval, s)"
  let ?can_delete = "\<lambda>(self::int) (u::django_user) (ctx::pydict) (s::nat).
    (Inr (PyBool (self = pk u)) :: exn + pyval, s)"
  let ?can_edit = "\<lambda>(u::django_user) (ctx::pydict) (s::nat).
    (Inr (PyBool (pk u = 1)) :: exn + pyval, s)"
  have v1: "lower ''View'' = lower ''view''" and v2: "lower ''VIEW'' = lower ''view''"
    and v3: "lower ''view'' = lower ''view''"
    and d1: "lower ''DELETE'' = lower ''delete''" and d2: "lower ''Delete'' = lower ''delete''"
    by (simp_all add: lower_literals)
  have e1: "lower_unicode ([CHR 0xC9] @ ''DIT'') = lower_unicode ([CHR 0xE9] @ ''dit'')"
    by (simp add: lower_unicode_literals)
  have 1: "has_perm alice ''View'' (Some (on foo_row Map.empty)) (0::nat) = (Inr (PyBool True), 0)"
    using perm_name_case_insensitive [where lc = lower and p = "''View''" and q = "''view''"
        and user_obj = alice and cls = Foo and attrs = Map.empty and self = 1
        and g = ?can_view and ctx = Map.empty and s = "0::nat",
        OF v1, THEN conjunct2, THEN conjunct2, THEN conjunct2]
    by (simp add: has_perm_with_lower alice_def foo_row_def Foo_def lower_literals)
  have 2: "has_perm alice ''VIEW'' (Some (on foo_row Map.empty)) (0::nat) = (Inr (PyBool True), 0)"
    using perm_name_case_insensitive [where lc = lower and p = "''VIEW''" and q = "''view''"
        and user_obj = alice and cls = Foo and attrs = Map.empty and self = 1
        and g = ?can_view and ctx = Map.empty and s = "0::nat",
        OF v2, THEN conjunct2, THEN conjunct2, THEN conjunct2]
    by (simp add: has_perm_with_lower alice_def foo_row_def Foo_def lower_literals)
  have 3: "has_perm alice ''view'' (Some (on foo_row Map.empty)) (0::nat) = (Inr (PyBool True), 0)"
    using perm_name_case_insensitive [where lc = lower and p = "''view''" and q = "''view''"
        and user_obj = alice and cls = Foo and attrs = Map.empty and self = 1
        and g = ?can_view and ctx = Map.empty and s = "0::nat",
        OF v3, THEN conjunct2, THEN conjunct2, THEN conjunct2]
    by (simp add: has_perm_with_lower alice_def foo_row_def Foo_def lower_literals)
  have 4: "has_perm bob ''DELETE'' (Some (on foo_row Map.empty)) (0::nat) = (Inr (PyBool False), 0)"
    using perm_name_case_insensitive [where lc = lower and p = "''DELETE''" and q = "''delete''"
        and user_obj = bob and cls = Foo and attrs = Map.empty and self = 1
        and g = ?can_delete and ctx = Map.empty and s = "0::nat",
        OF d1, THEN conjunct2, THEN conjunct2, THEN conjunct2]
    by (simp add: has_perm_with_lower bob_def foo_row_def Foo_def lower_literals)
  have 5: "has_perm bob ''Delete'' (Some (on foo_row Map.empty)) (0::nat) = (Inr (PyBool False), 0)"
    using perm_name_case_insensitive [where lc = lower and p = "''Delete''" and q = "''delete''"
        and user_obj = bob and cls = Foo and attrs = Map.empty and self = 1
        and g = ?can_delete and ctx = Map.empty and s = "0::nat",
        OF d2, THEN conjunct2, THEN conjunct2, THEN conjunct2]
    by (simp add: has_perm_with_lower bob_def foo_row_def Foo_def lower_literals)
  have 6: "has_perm alice ''DELETE'' (Some (on foo_row Map.empty)) (0::nat) = (Inr (PyBool True), 0)"
    using perm_name_case_insensitive [where lc = lower and p = "''DELETE''" and q = "''delete''"
        and user_obj = alice and cls = Foo and attrs = Map.empty and self = 1
        and g = ?can_delete and ctx = Map.empty and s = "0::nat",
        OF d1, THEN conjunct2, THEN conjunct2, THEN conjunct2]
    by (simp add: has_perm_with_lower alice_def foo_row_def Foo_def lower_literals)
  have 7: "has_perm_with lower_unicode alice ([CHR 0xC9] @ ''DIT'')
      (Some (on (Model Accented) Map.empty)) (0::nat) = (Inr (PyBool True), 0)"
    using perm_name_case_insensitive [where lc = lower_unicode and p = "[CHR 0xC9] @ ''DIT''"
        and q = "[CHR 0xE9] @ ''dit''" and user_obj = alice and cls = Accented
        and f = ?can_edit and ctx = Map.empty and s = "0::nat",
        OF e1, THEN conjunct2, THEN conjunct2, THEN conjunct1]
    by (simp add: alice_def Accented_def lower_unicode_literals)
  have 8: "has_perm_with lower_unicode bob ([CHR 0xC9] @ ''DIT'')
      (Some (on (Model Accented) Map.empty)) (0::nat) = (Inr (PyBool False), 0)"
    using perm_name_case_insensitive [where lc = lower_unicode and p = "[CHR 0xC9] @ ''DIT''"
        and q = "[CHR 0xE9] @ ''dit''" and user_obj = bob and cls = Accented
        and f = ?can_edit and ctx = Map.empty and s = "0::nat",
        OF e1, THEN conjunct2, THEN conjunct2, THEN conjunct1]
    by (simp add: bob_def Accented_def lower_unicode_literals)
  have n: "''can_'' @ lower ''VIEW'' = ''can_view''"
    by (simp add: lower_literals)
  show ?thesis
    by (intro conjI v1 v2 n 1 2 3 4 5 6 e1 7 8)
qed

text \<open>
  C6. For a user that is not a superuser, is authenticated and is active, and a present
  target on which lookup finds the check, \<open>has_perm\<close> returns exactly what the call of
  that check with the user and the target's context returns: value or exception, and the
  world the check leaves. With the \<open>can_edit\<close> of \<open>Foo\<close> the verdict is true exactly when
  \<open>context["owner"]\<close> is the user's key.
\<close>

theorem has_perm_delegates:
  assumes "\<not> is_superuser user_obj" and "\<not> is_anonymous user_obj" and "is_active user_obj"
    and "getattr (model_or_instance ob) (''can_'' @ lower perm) = Inr perm_check"
  shows "has_perm user_obj perm (Some ob) s = call perm_check user_obj (obj_context ob) s"
  using assms by (simp add: has_perm_def)

theorem has_perm_delegates_witness:
  "\<not> is_superuser alice \<and> \<not> is_anonymous alice \<and> is_active alice
   \<and> has_perm alice ''edit'' (Some (on foo_row [''owner'' \<mapsto> PyInt 1])) (0::nat)
       = (Inr (PyBool True), 0)
   \<and> has_perm bob ''edit'' (Some (on foo_row [''owner'' \<mapsto> PyInt 1])) (0::nat)
       = (Inr (PyBool False), 0)
   \<and> has_perm alice ''edit'' (Some (on foo_row Map.empty)) (0::nat)
       = (Inl (KeyError ''owner''), 0)"
proof -
  let ?can_edit = "\<lambda>(self::int) (u::django_user) (ctx::pydict) (s::nat).
         (case ctx ''owner'' of
            None \<Rightarrow> (Inl (KeyError ''owner''), s)
          | Some v \<Rightarrow> (Inr (PyBool (v = PyInt (pk u))), s))"
  have a: "\<not> is_superuser alice" "\<not> is_anonymous alice" "is_active alice"
    by (simp_all add: alice_def)
  have b: "\<not> is_superuser bob" "\<not> is_anonymous bob" "is_active bob"
    by (simp_all add: bob_def)
  have g: "getattr (model_or_instance (on foo_row ctx)) (''can_'' @ lower ''edit'')
      = Inr (BoundMethod (?can_edit 1))" for ctx
    by (simp add: on_def foo_row_def Foo_def lower_literals)
  show ?thesis
    using a has_perm_delegates [OF a g, of "[''owner'' \<mapsto> PyInt 1]" 0]
      has_perm_delegates [OF b g, of "[''owner'' \<mapsto> PyInt 1]" 0]
      has_perm_delegates [OF a g, of "Map.empty" 0]
    by (simp add: on_def alice_def bob_def)
qed

text \<open>
  C4. As stated, with "at the required scope", the claim fails: a row of \<open>Foo\<close> has no
  instance-scoped \<open>can_create\<close>, yet attribute lookup on the instance falls back to the
  class and finds the class method, so the request is answered, not refused.
\<close>

theorem missing_check_counterexample:
  "\<not> defines_at_scope foo_row (''can_'' @ lower ''create'')
   \<and> has_perm alice ''create'' (Some (on foo_row [''parent'' \<mapsto> PyInt 1])) (0::nat)
       = (Inr (PyBool True), 0)
   \<and> Resolve alice (on foo_row [''parent'' \<mapsto> PyInt 1]) ''create'' (0::nat)
       = (Inr (PyBool True), 0)"
  by (simp add: has_perm_def Resolve_def alice_def on_def foo_row_def Foo_def lower_literals)

text \<open>
  C4, amended. When no check of the name is defined for the target at any scope (not in
  the class namespace and, for an instance, not among its own attributes either),
  \<open>Resolve\<close> fails with \<open>AttributeError\<close>, and so does \<open>has_perm\<close> for a user that is not
  a superuser, is authenticated and is active; neither returns a verdict, and the world is
  unchanged.
\<close>

theorem missing_check_raises:
  assumes "\<not> is_superuser user_obj" and "\<not> is_anonymous user_obj" and "is_active user_obj"
    and "\<not> defines_somewhere (model_or_instance ob) (''can_'' @ lower perm)"
  shows "Resolve user_obj ob perm s = (Inl (AttributeError (''can_'' @ lower perm)), s)
    \<and> has_perm user_obj perm (Some ob) s = (Inl (AttributeError (''can_'' @ lower perm)), s)"
  using assms
  by (cases "model_or_instance ob") (simp_all add: has_perm_def Resolve_def)

theorem missing_check_raises_witness:
  "\<not> is_superuser alice \<and> \<not> is_anonymous alice \<and> is_active alice
   \<and> \<not> defines_somewhere foo_row (''can_'' @ lower ''archive'')
   \<and> Resolve alice (on foo_row Map.empty) ''archive'' (0::nat)
       = (Inl (AttributeError ''can_archive''), 0)
   \<and> has_perm alice ''archive'' (Some (on foo_row Map.empty)) (0::nat)
       = (Inl (AttributeError ''can_archive''), 0)"
proof -
  have a: "\<not> is_superuser alice" "\<not> is_anonymous alice" "is_active alice"
    by (simp_all add: alice_def)
  have d: "\<not> defines_somewhere (model_or_instance (on foo_row Map.empty)) (''can_'' @ lower ''archive'')"
    by (simp add: on_def foo_row_def Foo_def lower_literals)
  show ?thesis
    using a d missing_check_raises [OF a d, of "0::nat"]
    by (simp add: on_def lower_literals)
qed

text \<open>
  What lookup does with a plain function of the class namespace: reached through an
  instance it is bound to that instance, reached through the class it is unbound and the
  call with \<open>(user_obj, obj.context)\<close> raises \<open>TypeError\<close>.
\<close>

lemma instance_method_bound:
  assumes "\<not> is_superuser user_obj" and "\<not> is_anonymous user_obj" and "is_active user_obj"
    and "cls (''can_'' @ lower perm) = Some (Function g)"
    and "attrs (''can_'' @ lower perm) = None"
  shows "has_perm user_obj perm (Some (on (Instance cls self attrs) ctx)) s
    = g self user_obj ctx s"
  using assms by (simp add: has_perm_def on_def)

lemma unbound_method_raises:
  assumes "\<not> is_superuser user_obj" and "\<not> is_anonymous user_obj" and "is_active user_obj"
    and "cls (''can_'' @ lower perm) = Some (Function g)"
  shows "has_perm user_obj perm (Some (on (Model cls) ctx)) s = (Inl TypeError, s)"
  using assms by (simp add: has_perm_def on_def)

text \<open>
  C8. When the class defines a class method under the name and the instance carries a
  check of its own under the same name (a class namespace holds one definition per name,
  so this is how both scopes exist at once), a class target gets the class method and an
  instance target gets the instance's check: the two outcomes are those of two
  independent functions.
\<close>

theorem class_and_instance_scope:
  assumes "\<not> is_superuser user_obj" and "\<not> is_anonymous user_obj" and "is_active user_obj"
    and "cls (''can_'' @ lower perm) = Some (ClassMethod f)"
    and "attrs (''can_'' @ lower perm) = Some g"
  shows "has_perm user_obj perm (Some (on (Model cls) ctx)) s = f user_obj ctx s
    \<and> has_perm user_obj perm (Some (on (Instance cls self attrs) ctx)) s = g user_obj ctx s"
  using assms by (simp add: has_perm_def on_def)

theorem class_and_instance_scope_witness:
  "\<not> is_superuser alice \<and> \<not> is_anonymous alice \<and> is_active alice
   \<and> has_perm alice ''create'' (Some (on (Model Foo) [''parent'' \<mapsto> PyInt 1])) (0::nat)
       = (Inr (PyBool True), 0)
   \<and> has_perm alice ''create'' (Some (on foo_row_own [''parent'' \<mapsto> PyInt 1])) (0::nat)
       = (Inr (PyBool False), 0)"
proof -
  let ?f = "\<lambda>(u::django_user) (ctx::pydict) (s::nat).
    (Inr (PyBool (ctx ''parent'' = Some (PyInt (pk u)))) :: exn + pyval, s)"
  let ?g = "\<lambda>(u::django_user) (ctx::pydict) (s::nat). (Inr (PyBool False) :: exn + pyval, s)"
  let ?attrs = "[''can_create'' \<mapsto> ?g]"
  have a: "\<not> is_superuser alice" "\<not> is_anonymous alice" "is_active alice"
    by (simp_all add: alice_def)
  have c: "Foo (''can_'' @ lower ''create'') = Some (ClassMethod ?f)"
    by (simp add: Foo_def lower_literals)
  have i: "?attrs (''can_'' @ lower ''create'') = Some ?g"
    by (simp add: lower_literals)
  show ?thesis
    using a class_and_instance_scope [where user_obj = alice and perm = "''create''"
        and cls = Foo and attrs = ?attrs and f = ?f and g = ?g
        and ctx = "[''parent'' \<mapsto> PyInt 1]" and s = 0 and self = 1, OF a c i]
    by (simp add: foo_row_own_def alice_def)
qed

section \<open>Determinism and state\<close>

lemma foo_row_side_effect_free: "side_effect_free foo_row"
  by (auto simp add: side_effect_free_def foo_row_def Foo_def split: if_splits option.splits)

text \<open>
  C10. As stated for principals with equal flags, the claim fails: the check receives the
  whole user object, and two users with the same three flags and different keys get
  different verdicts from the side-effect-free \<open>can_edit\<close> of \<open>Foo\<close>, on the same target,
  context and permission name.
\<close>

theorem equal_flags_counterexample:
  "is_superuser alice = is_superuser bob \<and> is_anonymous alice = is_anonymous bob
   \<and> is_active alice = is_active bob \<and> side_effect_free foo_row
   \<and> has_perm alice ''edit'' (Some (on foo_row [''owner'' \<mapsto> PyInt 1])) (0::nat)
       \<noteq> has_perm bob ''edit'' (Some (on foo_row [''owner'' \<mapsto> PyInt 1])) 0"
  by (simp add: foo_row_side_effect_free)
     (simp add: has_perm_def alice_def bob_def on_def foo_row_def Foo_def lower_literals)

text \<open>
  C10, amended. For two invocations with equal principal flags, the same target,
  context, permission name and world, checks that are free of side effects, and
  principals that the located check does not tell apart (in particular, the same
  principal), the two outcomes are equal; the call leaves the world as it was, so a later
  call gives the same outcome again.
\<close>

theorem has_perm_stateless:
  assumes flags: "is_superuser u1 = is_superuser u2" "is_anonymous u1 = is_anonymous u2"
      "is_active u1 = is_active u2"
    and pure: "\<And>ob. obj = Some ob \<Longrightarrow> side_effect_free (model_or_instance ob)"
    and same: "\<And>ob perm_check. obj = Some ob
      \<Longrightarrow> getattr (model_or_instance ob) (''can_'' @ lower perm) = Inr perm_check
      \<Longrightarrow> call perm_check u1 (obj_context ob) s = call perm_check u2 (obj_context ob) s"
  shows "has_perm u1 perm obj s = has_perm u2 perm obj s
    \<and> snd (has_perm u1 perm obj s) = s
    \<and> has_perm u2 perm obj (snd (has_perm u1 perm obj s)) = has_perm u1 perm obj s"
proof -
  have eq: "has_perm u1 perm obj s = has_perm u2 perm obj s"
  proof (cases obj)
    case None
    then show ?thesis by (simp add: has_perm_def)
  next
    case (Some ob)
    show ?thesis
    proof (cases "getattr (model_or_instance ob) (''can_'' @ lower perm)")
      case (Inl e)
      with Some flags show ?thesis by (simp add: has_perm_def)
    next
      case (Inr perm_check)
      with Some flags same [OF Some Inr] show ?thesis by (simp add: has_perm_def)
    qed
  qed
  have st: "snd (has_perm u1 perm obj s) = s"
  proof (cases obj)
    case None
    then show ?thesis by (simp add: has_perm_def)
  next
    case (Some ob)
    show ?thesis
    proof (cases "getattr (model_or_instance ob) (''can_'' @ lower perm)")
      case (Inl e)
      with Some show ?thesis by (simp add: has_perm_def)
    next
      case (Inr perm_check)
      show ?thesis
      proof (cases perm_check)
        case (BoundMethod f)
        with pure [OF Some] Inr have "snd (f u1 (obj_context ob) s) = s"
          by (simp add: side_effect_free_def)
        with Some Inr BoundMethod show ?thesis by (simp add: has_perm_def)
      next
        case (UnboundMethod g)
        with Some Inr show ?thesis by (simp add: has_perm_def)
      qed
    qed
  qed
  from eq st show ?thesis by simp
qed

theorem has_perm_stateless_witness:
  "is_superuser alice = is_superuser bob \<and> is_anonymous alice = is_anonymous bob
   \<and> is_active alice = is_active bob \<and> side_effect_free foo_row
   \<and> has_perm alice ''view'' (Some (on foo_row Map.empty)) (0::nat)
       = has_perm bob ''view'' (Some (on foo_row Map.empty)) 0
   \<and> snd (has_perm alice ''view'' (Some (on foo_row Map.empty)) (0::nat)) = 0
   \<and> has_perm alice ''view'' (Some (on foo_row Map.empty)) (0::nat) = (Inr (PyBool True), 0)"
proof -
  let ?obj = "Some (on foo_row Map.empty)"
  have flags: "is_superuser alice = is_superuser bob" "is_anonymous alice = is_anonymous bob"
      "is_active alice = is_active bob"
    by (simp_all add: alice_def bob_def)
  have pure: "side_effect_free (model_or_instance ob)" if "?obj = Some ob" for ob
    using that foo_row_side_effect_free by (auto simp add: on_def)
  have same: "call perm_check alice (obj_context ob) (0::nat) = call perm_check bob (obj_context ob) 0"
    if "?obj = Some ob" "getattr (model_or_instance ob) (''can_'' @ lower ''view'') = Inr perm_check"
    for ob perm_check
    using that by (auto simp add: on_def foo_row_def Foo_def lower_literals)
  have v: "has_perm alice ''view'' ?obj (0::nat) = (Inr (PyBool True), 0)"
    by (simp add: has_perm_def alice_def on_def foo_row_def Foo_def lower_literals)
  note r = has_perm_stateless [where ?u1.0 = alice and ?u2.0 = bob and obj = ?obj
      and perm = "''view''" and s = "0::nat", OF flags pure same]
  from r have e1: "has_perm alice ''view'' ?obj (0::nat) = has_perm bob ''view'' ?obj 0"
    by (rule conjunct1)
  from r have e2: "snd (has_perm alice ''view'' ?obj (0::nat)) = 0"
    by (rule conjunct1 [OF conjunct2])
  show ?thesis
    by (intro conjI flags foo_row_side_effect_free e1 e2 v)
qed

end
